theory Spec2Isabelle
  imports Main "HOL-Library.Char_ord" "HOL-Library.List_Lexorder" "HOL-Library.Multiset"
begin

section \<open>JavaScript values\<close>

text \<open>
  The values that reach the code through fields typed \<^verbatim>\<open>any\<close> or
  \<^verbatim>\<open>Record<string, any>\<close>.
  \<^item> A number is represented by the text that ECMAScript's \<^verbatim>\<open>Number::toString\<close> gives for
    it (\<^verbatim>\<open>42\<close>, \<^verbatim>\<open>0.5\<close>, \<^verbatim>\<open>1e+21\<close>, \<^verbatim>\<open>NaN\<close>), which determines the number up to the sign
    of zero.
  \<^item> A plain object is the association list of its own properties, in property order; it
    inherits from \<^verbatim>\<open>Object.prototype\<close>.
  \<^item> A function carries its source text, which is what \<^verbatim>\<open>String(f)\<close> yields, and what a
    call of it as a method without arguments does: return a value, or throw (\<open>None\<close>).
  Symbols, accessors and proxies are not modelled.
\<close>

datatype jsval =
    JUndefined
  | JNull
  | JBool bool
  | JNum string
  | JStr string
  | JArr "jsval list"
  | JObj "(string \<times> jsval) list"
  | JFun string "jsval option"

type_synonym jsobject = "(string \<times> jsval) list"

text \<open>
  What a conversion can raise: the \<^verbatim>\<open>TypeError\<close> of the language, or whatever a called
  function throws.
\<close>

datatype js_exn = TypeError | Thrown

definition NL :: char where
  "NL = CHR 0x0A"

definition digit_char :: "nat \<Rightarrow> char" where
  "digit_char d = ''0123456789'' ! d"

fun string_of_nat :: "nat \<Rightarrow> string" where
  "string_of_nat n =
     (if n < 10 then [digit_char n] else string_of_nat (n div 10) @ [digit_char (n mod 10)])"

declare string_of_nat.simps [simp del]

definition string_of_int :: "int \<Rightarrow> string" where
  "string_of_int i = (if i < 0 then CHR ''-'' # string_of_nat (nat (- i)) else string_of_nat (nat i))"

fun join :: "string \<Rightarrow> string list \<Rightarrow> string" where
  "join sep [] = []"
| "join sep [x] = x"
| "join sep (x # y # ys) = x @ sep @ join sep (y # ys)"

text \<open>The results of conversions made one after the other: the first exception ends them.\<close>

fun collect :: "('e + 'a) list \<Rightarrow> 'e + 'a list" where
  "collect [] = Inr []"
| "collect (Inl e # rs) = Inl e"
| "collect (Inr x # rs) = (case collect rs of Inl e \<Rightarrow> Inl e | Inr xs \<Rightarrow> Inr (x # xs))"

text \<open>\<^verbatim>\<open>String(v)\<close> of a primitive value; \<open>None\<close> for an object, an array or a function.\<close>

fun primitive_String :: "jsval \<Rightarrow> string option" where
  "primitive_String JUndefined = Some ''undefined''"
| "primitive_String JNull = Some ''null''"
| "primitive_String (JBool b) = Some (if b then ''true'' else ''false'')"
| "primitive_String (JNum r) = Some r"
| "primitive_String (JStr s) = Some s"
| "primitive_String (JArr xs) = None"
| "primitive_String (JObj kvs) = None"
| "primitive_String (JFun src r) = None"

text \<open>
  One step of the conversion of an object to a primitive: the method found under
  \<^verbatim>\<open>toString\<close> or \<^verbatim>\<open>valueOf\<close> is called if it is callable. The conversion ends with the string
  of a primitive result or with what the call throws; it goes on (\<open>None\<close>) when the value
  is not callable or the call returns an object.
\<close>

fun call_for_primitive :: "jsval \<Rightarrow> (js_exn + string) option" where
  "call_for_primitive (JFun src None) = Some (Inl Thrown)"
| "call_for_primitive (JFun src (Some r)) =
     (case primitive_String r of Some s \<Rightarrow> Some (Inr s) | None \<Rightarrow> None)"
| "call_for_primitive v = None"

text \<open>
  \<^verbatim>\<open>String(o)\<close> of a plain object: \<^verbatim>\<open>toString\<close> first, then \<^verbatim>\<open>valueOf\<close>, each its own
  property or else the one of \<^verbatim>\<open>Object.prototype\<close>. The inherited \<^verbatim>\<open>toString\<close> returns
  \<^verbatim>\<open>[object Object]\<close>; the inherited \<^verbatim>\<open>valueOf\<close> returns the object itself, which is no
  primitive. When neither step ends the conversion, it is a \<^verbatim>\<open>TypeError\<close>.
\<close>

definition object_String :: "jsobject \<Rightarrow> js_exn + string" where
  "object_String kvs =
     (case (case map_of kvs ''toString'' of
              None \<Rightarrow> Some (Inr ''[object Object]'')
            | Some m \<Rightarrow> call_for_primitive m) of
        Some r \<Rightarrow> r
      | None \<Rightarrow>
          (case (case map_of kvs ''valueOf'' of
                   None \<Rightarrow> None
                 | Some m \<Rightarrow> call_for_primitive m) of
             Some r \<Rightarrow> r
           | None \<Rightarrow> Inl TypeError))"

text \<open>
  \<^verbatim>\<open>String(v)\<close>, the conversion that a template literal applies to each of its
  substitutions. An array joins the strings of its elements with a comma, \<^verbatim>\<open>null\<close> and
  \<^verbatim>\<open>undefined\<close> elements giving the empty string.
\<close>

fun js_String :: "jsval \<Rightarrow> js_exn + string" where
  "js_String JUndefined = Inr ''undefined''"
| "js_String JNull = Inr ''null''"
| "js_String (JBool b) = Inr (if b then ''true'' else ''false'')"
| "js_String (JNum r) = Inr r"
| "js_String (JStr s) = Inr s"
| "js_String (JArr xs) =
     (case collect (map (\<lambda>x. if x = JUndefined \<or> x = JNull then Inr [] else js_String x) xs) of
        Inl e \<Rightarrow> Inl e
      | Inr ss \<Rightarrow> Inr (join '','' ss))"
| "js_String (JObj kvs) = object_String kvs"
| "js_String (JFun src r) = Inr src"

text \<open>Truthiness, as \<^verbatim>\<open>if (v)\<close>, \<^verbatim>\<open>v ? a : b\<close> and \<^verbatim>\<open>!!v\<close> test it.\<close>

fun truthy :: "jsval \<Rightarrow> bool" where
  "truthy JUndefined = False"
| "truthy JNull = False"
| "truthy (JBool b) = b"
| "truthy (JNum r) = (r \<noteq> ''0'' \<and> r \<noteq> ''NaN'')"
| "truthy (JStr s) = (s \<noteq> [])"
| "truthy (JArr xs) = True"
| "truthy (JObj kvs) = True"
| "truthy (JFun src r) = True"

definition nullish :: "jsval \<Rightarrow> bool" where
  "nullish v = (v = JUndefined \<or> v = JNull)"

text \<open>
  Property read \<^verbatim>\<open>o.k\<close> on a value that is neither \<^verbatim>\<open>null\<close> nor \<^verbatim>\<open>undefined\<close>: the own
  property of an object, \<^verbatim>\<open>undefined\<close> when it is absent. The members that every value
  inherits (\<^verbatim>\<open>length\<close>, \<^verbatim>\<open>toString\<close>, ...) are not among the keys read this way, which are
  \<^verbatim>\<open>error\<close>, \<^verbatim>\<open>type\<close>, \<^verbatim>\<open>reason\<close>, \<^verbatim>\<open>context\<close>, \<^verbatim>\<open>event\<close> and the keys of a scope.
\<close>

definition obj_get :: "jsobject \<Rightarrow> string \<Rightarrow> jsval" where
  "obj_get kvs k = (case map_of kvs k of None \<Rightarrow> JUndefined | Some v \<Rightarrow> v)"

fun get_prop :: "jsval \<Rightarrow> string \<Rightarrow> jsval" where
  "get_prop (JObj kvs) k = obj_get kvs k"
| "get_prop v k = JUndefined"

text \<open>Optional chaining \<^verbatim>\<open>v?.k\<close>.\<close>

definition opt_chain :: "jsval \<Rightarrow> string \<Rightarrow> jsval" where
  "opt_chain v k = (if nullish v then JUndefined else get_prop v k)"

section \<open>The search-engine client's request and response types\<close>

text \<open>
  \<^verbatim>\<open>RequestBody = Record<string, any> | string | Buffer | ReadableStream\<close>. An object body
  is given by its own properties and by the properties it inherits along its prototype
  chain, nearest first: the operator \<^verbatim>\<open>in\<close> and a property read \<^verbatim>\<open>body.k\<close> look a key up
  in the own properties and then in the inherited ones. A stream is such an object: it
  inherits \<^verbatim>\<open>readable\<close> and \<^verbatim>\<open>_read\<close> from its class.
\<close>

datatype RequestBody =
    BodyString string
  | BodyBuffer "nat list"
  | BodyObject jsobject jsobject

datatype QueryString =
    QsString string
  | QsObject jsobject

record TransportRequestParams =
  "method" :: string
  path :: string
  body :: "RequestBody option"
  querystring :: "QueryString option"

record RequestInfo =
  params :: TransportRequestParams

record RequestMeta =
  request :: RequestInfo

record RequestEvent =
  body :: jsval
  statusCode :: "int option"
  meta :: RequestMeta

datatype error_class =
    ResponseError
  | ConnectionError
  | TimeoutError
  | NoLivingConnectionsError
  | SerializationError
  | DeserializationError
  | ConfigurationError
  | RequestAbortedError

record ApiError =
  error_class :: error_class
  name :: string
  message :: string

text \<open>
  The two library functions the formatter calls, \<^verbatim>\<open>querystring.stringify\<close> and
  \<^verbatim>\<open>JSON.stringify\<close>, are parameters of the model. \<^verbatim>\<open>JSON.stringify\<close> receives the object
  body: its own and its inherited properties.
\<close>

record stdlib =
  stringify :: "jsobject \<Rightarrow> string"
  JSON_stringify :: "jsobject \<Rightarrow> jsobject \<Rightarrow> string"

section \<open>The logging helper\<close>

definition convertQueryString :: "stdlib \<Rightarrow> QueryString option \<Rightarrow> string" where
  "convertQueryString lib qs =
     (case qs of
        None \<Rightarrow> ''''
      | Some (QsString s) \<Rightarrow> s
      | Some (QsObject ob) \<Rightarrow> stringify lib ob)"

text \<open>
  \<^verbatim>\<open>'readable' in body && body.readable && typeof body._read === 'function'\<close>, on an
  object body with own properties \<open>own\<close> and inherited properties \<open>inherited\<close>.
\<close>

definition is_stream :: "jsobject \<Rightarrow> jsobject \<Rightarrow> bool" where
  "is_stream own inherited =
     (''readable'' \<in> set (map fst (own @ inherited))
      \<and> truthy (obj_get (own @ inherited) ''readable'')
      \<and> (case obj_get (own @ inherited) ''_read'' of JFun src r \<Rightarrow> True | _ \<Rightarrow> False))"

fun ensureString :: "stdlib \<Rightarrow> RequestBody \<Rightarrow> string" where
  "ensureString lib (BodyString s) = s"
| "ensureString lib (BodyBuffer bs) = ''[buffer]''"
| "ensureString lib (BodyObject own inherited) =
     (if is_stream own inherited then ''[stream]'' else JSON_stringify lib own inherited)"

text \<open>\<^verbatim>\<open>params.body ? ... : ''\<close>: an absent body and the empty string are falsy.\<close>

fun body_truthy :: "RequestBody option \<Rightarrow> bool" where
  "body_truthy None = False"
| "body_truthy (Some (BodyString s)) = (s \<noteq> [])"
| "body_truthy (Some (BodyBuffer bs)) = True"
| "body_truthy (Some (BodyObject own inherited)) = True"

definition status_String :: "int option \<Rightarrow> string" where
  "status_String sc = (case sc of None \<Rightarrow> ''null'' | Some n \<Rightarrow> string_of_int n)"

definition getResponseMessage :: "stdlib \<Rightarrow> RequestEvent \<Rightarrow> string" where
  "getResponseMessage lib event =
     (let params = params (request (meta event));
          querystring = convertQueryString lib (querystring params);
          url = path params @ (if querystring \<noteq> [] then ''?'' @ querystring else '''');
          body = (case TransportRequestParams.body params of
                    Some b \<Rightarrow> if body_truthy (Some b) then NL # ensureString lib b else ''''
                  | None \<Rightarrow> '''')
      in status_String (statusCode event) @ [NL] @ method params @ '' '' @ url @ body)"

text \<open>
  The template literal converts its substitutions from left to right; a conversion that
  throws ends the call with that exception.
\<close>

definition getErrorMessage :: "stdlib \<Rightarrow> ApiError \<Rightarrow> RequestEvent \<Rightarrow> js_exn + string" where
  "getErrorMessage lib error event =
     (if error_class error = ResponseError then
        (case js_String (opt_chain (opt_chain (RequestEvent.body event) ''error'') ''type'') of
           Inl e \<Rightarrow> Inl e
         | Inr type_text \<Rightarrow>
             (case (let reason = opt_chain (opt_chain (RequestEvent.body event) ''error'') ''reason''
                    in if nullish reason then Inr (message error) else js_String reason) of
                Inl e \<Rightarrow> Inl e
              | Inr reason_text \<Rightarrow>
                  Inr (getResponseMessage lib event @ '' ['' @ type_text @ '']: '' @ reason_text)))
      else Inr (''['' @ name error @ '']: '' @ message error))"

section \<open>The logging interceptor\<close>

text \<open>
  The logger is a collaborator: a call of \<^verbatim>\<open>logger.error(msg)\<close> or
  \<^verbatim>\<open>logger.debug(msg, { tags })\<close> is recorded, in order, in the list of calls made.
\<close>

datatype log_call =
    Logger_error string
  | Logger_debug string "string list"

text \<open>A listener returns the calls made so far, or ends with the exception it throws.\<close>

type_synonym listener =
  "ApiError option \<Rightarrow> RequestEvent option \<Rightarrow> log_call list \<Rightarrow> js_exn + log_call list"

text \<open>
  The client, as far as the code uses it: the options it was built from and the
  listeners registered with \<^verbatim>\<open>client.on(eventName, listener)\<close>. Emitting an event runs
  the listeners registered under its name, in registration order; a listener that
  throws ends the emission.
\<close>

record 'o Client =
  clientOptions :: 'o
  listeners :: "(string \<times> listener) list"

definition new_Client :: "'o \<Rightarrow> 'o Client" where
  "new_Client opts = \<lparr>clientOptions = opts, listeners = []\<rparr>"

definition Client_on :: "string \<Rightarrow> listener \<Rightarrow> 'o Client \<Rightarrow> 'o Client" where
  "Client_on eventName l client = client\<lparr>listeners := listeners client @ [(eventName, l)]\<rparr>"

fun run_listeners ::
  "listener list \<Rightarrow> ApiError option \<Rightarrow> RequestEvent option \<Rightarrow> log_call list
     \<Rightarrow> js_exn + log_call list" where
  "run_listeners [] error event log = Inr log"
| "run_listeners (l # ls) error event log =
     (case l error event log of
        Inl e \<Rightarrow> Inl e
      | Inr log' \<Rightarrow> run_listeners ls error event log')"

definition Client_emit ::
  "'o Client \<Rightarrow> string \<Rightarrow> ApiError option \<Rightarrow> RequestEvent option \<Rightarrow> log_call list
     \<Rightarrow> js_exn + log_call list" where
  "Client_emit client eventName error event log =
     run_listeners (map snd (filter (\<lambda>r. fst r = eventName) (listeners client))) error event log"

definition addLogging :: "stdlib \<Rightarrow> 'o Client \<Rightarrow> bool \<Rightarrow> 'o Client" where
  "addLogging lib client logQueries =
     Client_on ''response''
       (\<lambda>error event log.
          if event \<noteq> None \<and> logQueries then
            (if error \<noteq> None then
               (case getErrorMessage lib (the error) (the event) of
                  Inl e \<Rightarrow> Inl e
                | Inr msg \<Rightarrow> Inr (log @ [Logger_error msg]))
             else Inr (log @ [Logger_debug (getResponseMessage lib (the event)) [''query'']]))
          else Inr log)
       client"

record ElasticsearchClientConfig =
  logQueries :: bool

text \<open>
  \<^verbatim>\<open>parseClientOptions\<close> lives in a module that is not part of the sources at hand; it is
  a parameter. \<^verbatim>\<open>scoped\<close> is optional and defaults to \<^verbatim>\<open>false\<close>.
\<close>

definition configureClient ::
  "('a ElasticsearchClientConfig_scheme \<Rightarrow> bool \<Rightarrow> 'o) \<Rightarrow> stdlib
     \<Rightarrow> 'a ElasticsearchClientConfig_scheme \<Rightarrow> bool option \<Rightarrow> 'o Client" where
  "configureClient parseClientOptions lib config scoped_arg =
     (let scoped = (case scoped_arg of None \<Rightarrow> False | Some b \<Rightarrow> b);
          clientOptions = parseClientOptions config scoped;
          client = new_Client clientOptions
      in addLogging lib client (logQueries config))"

section \<open>The URL drilldown\<close>

datatype UrlTrigger =
    VALUE_CLICK_TRIGGER
  | SELECT_RANGE_TRIGGER
  | ROW_CLICK_TRIGGER
  | CONTEXT_MENU_TRIGGER

text \<open>
  Modelled from the spec: the declaration of \<^verbatim>\<open>UrlDrilldownConfig\<close> is in a module that is
  not part of the sources at hand. The spec's data model gives a configuration a URL
  template string and a boolean flag; these are the fields \<^verbatim>\<open>createConfig\<close> builds and the
  methods read (\<^verbatim>\<open>config.url.template\<close>, \<^verbatim>\<open>config.openInNewTab\<close>).
\<close>

record UrlConfig =
  template :: string

record Config =
  url :: UrlConfig
  openInNewTab :: bool

record ValidationResult =
  isValid :: bool
  error :: "string option"

text \<open>
  The functions the class imports from modules that are not part of the sources at hand
  (\<^verbatim>\<open>@kbn/std\<close>, \<^verbatim>\<open>ui_actions_enhanced\<close>, \<^verbatim>\<open>./url_drilldown_scope\<close>) are parameters,
  collected in one record; \<open>'c\<close> is the type of the context they receive.
\<close>

record 'c drilldown_imports =
  getFlattenedObject :: "jsobject \<Rightarrow> jsobject"
  urlDrilldownValidateUrlTemplate :: "UrlConfig \<Rightarrow> jsval \<Rightarrow> ValidationResult"
  urlDrilldownCompileUrl :: "string \<Rightarrow> jsval \<Rightarrow> string"
  getPanelVariables :: "'c \<Rightarrow> jsobject"
  getEventScope :: "'c \<Rightarrow> jsval"
  getEventVariableList :: "'c \<Rightarrow> string list"

text \<open>
  The constructor's dependencies. \<^verbatim>\<open>navigateToUrl\<close> is an effect of the host: a call of
  it is recorded as \<open>NavigateToUrl\<close> in the list of effects a method returns, next to the
  calls of \<^verbatim>\<open>window.open\<close> and \<^verbatim>\<open>console.warn\<close>.
\<close>

record UrlDrilldownDeps =
  getGlobalScope :: "unit \<Rightarrow> jsobject"
  getSyntaxHelpDocsLink :: "unit \<Rightarrow> string"
  getVariablesHelpDocsLink :: "unit \<Rightarrow> string"

datatype effect =
    Console_warn string
  | Window_open string string string
  | NavigateToUrl string

text \<open>
  Writing a property of an object literal after a spread: an existing key keeps its place
  and takes the new value, a new key goes to the end.
\<close>

fun set_prop :: "jsobject \<Rightarrow> string \<Rightarrow> jsval \<Rightarrow> jsobject" where
  "set_prop [] k v = [(k, v)]"
| "set_prop ((k', v') # kvs) k v = (if k' = k then (k, v) # kvs else (k', v') # set_prop kvs k v)"

definition Object_keys :: "jsobject \<Rightarrow> string list" where
  "Object_keys ob = map fst ob"

text \<open>
  \<^verbatim>\<open>Array.prototype.sort()\<close> without a comparator orders strings by their code units,
  a proper prefix before its extensions: the lexicographic order of \<open>string\<close>.
\<close>

definition Array_sort :: "string list \<Rightarrow> string list" where
  "Array_sort xs = sort xs"

definition createConfig :: "unit \<Rightarrow> Config" where
  "createConfig u = \<lparr>url = \<lparr>template = []\<rparr>, openInNewTab = False\<rparr>"

definition isConfigValid :: "Config \<Rightarrow> bool" where
  "isConfigValid config = truthy (JStr (template (url config)))"

definition getRuntimeVariables :: "'c drilldown_imports \<Rightarrow> UrlDrilldownDeps \<Rightarrow> 'c \<Rightarrow> jsval" where
  "getRuntimeVariables imp deps context =
     JObj (set_prop
             (set_prop (getGlobalScope deps ())
                ''context'' (JObj [(''panel'', JObj (getPanelVariables imp context))]))
             ''event'' (getEventScope imp context))"

definition isCompatible ::
  "'c drilldown_imports \<Rightarrow> UrlDrilldownDeps \<Rightarrow> Config \<Rightarrow> 'c \<Rightarrow> bool \<times> effect list" where
  "isCompatible imp deps config context =
     (let scope = getRuntimeVariables imp deps context;
          r = urlDrilldownValidateUrlTemplate imp (url config) scope
      in (isValid r,
          if \<not> isValid r then
            [Console_warn (''UrlDrilldown ['' @ template (url config) @ ''] is not valid. Error [''
               @ (case error r of None \<Rightarrow> ''undefined'' | Some e \<Rightarrow> e)
               @ '']. Skipping execution.'')]
          else []))"

definition getHref :: "'c drilldown_imports \<Rightarrow> UrlDrilldownDeps \<Rightarrow> Config \<Rightarrow> 'c \<Rightarrow> string" where
  "getHref imp deps config context =
     (let scope = getRuntimeVariables imp deps context
      in urlDrilldownCompileUrl imp (template (url config)) scope)"

definition execute :: "'c drilldown_imports \<Rightarrow> UrlDrilldownDeps \<Rightarrow> Config \<Rightarrow> 'c \<Rightarrow> effect list" where
  "execute imp deps config context =
     (let url = urlDrilldownCompileUrl imp (template (url config))
                  (getRuntimeVariables imp deps context)
      in if openInNewTab config then [Window_open url ''_blank'' ''noopener'']
         else [NavigateToUrl url])"

definition getVariableList :: "'c drilldown_imports \<Rightarrow> UrlDrilldownDeps \<Rightarrow> 'c \<Rightarrow> string list" where
  "getVariableList imp deps context =
     (let eventVariables = getEventVariableList imp context;
          contextVariables =
            map (\<lambda>key. ''context.panel.'' @ key)
              (Object_keys (getFlattenedObject imp (getPanelVariables imp context)));
          globalVariables = Object_keys (getFlattenedObject imp (getGlobalScope deps ()))
      in Array_sort eventVariables @ Array_sort contextVariables @ Array_sort globalVariables)"

section \<open>The datatable visualization's registration\<close>

text \<open>
  The expressions plugin keeps what was registered with it: the thunks passed to
  \<^verbatim>\<open>registerFunction\<close> and to \<^verbatim>\<open>registerRenderer\<close>, in order, none of them invoked by
  the registration.
\<close>

record ('f, 'r) ExpressionsSetup =
  registeredFunctions :: "(unit \<Rightarrow> 'f) list"
  registeredRenderers :: "(unit \<Rightarrow> 'r) list"

definition registerFunction ::
  "(unit \<Rightarrow> 'f) \<Rightarrow> ('f, 'r) ExpressionsSetup \<Rightarrow> ('f, 'r) ExpressionsSetup" where
  "registerFunction getFn expressions = expressions\<lparr>registeredFunctions := registeredFunctions expressions @ [getFn]\<rparr>"

definition registerRenderer ::
  "(unit \<Rightarrow> 'r) \<Rightarrow> ('f, 'r) ExpressionsSetup \<Rightarrow> ('f, 'r) ExpressionsSetup" where
  "registerRenderer getRenderer expressions =
     expressions\<lparr>registeredRenderers := registeredRenderers expressions @ [getRenderer]\<rparr>"

text \<open>
  The editor frame keeps the factories passed to \<^verbatim>\<open>registerVisualization\<close>. A factory is
  an async function that captures the expressions plugin: invoked on the state the
  plugin has by then, it gives the visualization it resolves to and the plugin's new state.
\<close>

type_synonym ('f, 'r, 'v) visualization_factory =
  "('f, 'r) ExpressionsSetup \<Rightarrow> 'v \<times> ('f, 'r) ExpressionsSetup"

record ('f, 'r, 'v) EditorFrameSetup =
  visualizations :: "('f, 'r, 'v) visualization_factory list"

definition registerVisualization ::
  "('f, 'r, 'v) visualization_factory \<Rightarrow> ('f, 'r, 'v) EditorFrameSetup
     \<Rightarrow> ('f, 'r, 'v) EditorFrameSetup" where
  "registerVisualization factory editorFrame =
     editorFrame\<lparr>visualizations := visualizations editorFrame @ [factory]\<rparr>"

text \<open>
  The core's start services, \<^verbatim>\<open>[coreStart, { data }]\<close>, with the one member of the data
  plugin the code reads, \<^verbatim>\<open>data.search.aggs.types.get\<close>. A promise is modelled by the value
  it resolves to.
\<close>

record 'g DataPublicPluginStart =
  search_aggs_types_get :: 'g

record 'g DatatableVisualizationPluginStartPlugins =
  data :: "'g DataPublicPluginStart"

record ('cs, 'g) CoreSetup =
  getStartServices :: "unit \<Rightarrow> 'cs \<times> 'g DatatableVisualizationPluginStartPlugins"

record ('ff, 'g) DatatableRendererDeps =
  formatFactory :: 'ff
  getType :: 'g

text \<open>What the dynamically imported module \<^verbatim>\<open>../async_services\<close> exports; a parameter.\<close>

record ('f, 'r, 'v, 'ff, 'g) async_services =
  datatable :: 'f
  datatableColumns :: 'f
  getDatatableRenderer :: "('ff, 'g) DatatableRendererDeps \<Rightarrow> 'r"
  datatableVisualization :: 'v

text \<open>The async function that \<^verbatim>\<open>setup\<close> passes to \<^verbatim>\<open>registerVisualization\<close>.\<close>

definition datatable_factory ::
  "('f, 'r, 'v, 'ff, 'g) async_services \<Rightarrow> ('cs, 'g) CoreSetup \<Rightarrow> 'ff
     \<Rightarrow> ('f, 'r, 'v) visualization_factory" where
  "datatable_factory services core ff expressions0 =
     (let e1 = registerFunction (\<lambda>u. datatableColumns services) expressions0;
          e2 = registerFunction (\<lambda>u. datatable services) e1;
          e3 = registerRenderer
                 (\<lambda>u. getDatatableRenderer services
                        \<lparr>formatFactory = ff,
                         getType = search_aggs_types_get (data (snd (getStartServices core ())))\<rparr>)
                 e2
      in (datatableVisualization services, e3))"

record ('f, 'r, 'v, 'ff) DatatableVisualizationPluginSetupPlugins =
  expressions :: "('f, 'r) ExpressionsSetup"
  formatFactory :: 'ff
  editorFrame :: "('f, 'r, 'v) EditorFrameSetup"

text \<open>
  \<^verbatim>\<open>DatatableVisualization.setup\<close>: the state of the plugins it was handed, after the call.
\<close>

definition DatatableVisualization_setup ::
  "('f, 'r, 'v, 'ff, 'g) async_services \<Rightarrow> ('cs, 'g) CoreSetup
     \<Rightarrow> ('f, 'r, 'v, 'ff) DatatableVisualizationPluginSetupPlugins
     \<Rightarrow> ('f, 'r, 'v, 'ff) DatatableVisualizationPluginSetupPlugins" where
  "DatatableVisualization_setup services core plugins =
     plugins\<lparr>editorFrame :=
       registerVisualization
         (datatable_factory services core (formatFactory plugins))
         (editorFrame plugins)\<rparr>"

section \<open>Example inputs\<close>

text \<open>
  Concrete library functions, events, configurations and plugin states, on which the
  theorems below are instantiated. The two library functions of the example depend on
  the object they are given: they print its own properties, as \<^verbatim>\<open>k=v\<close> joined by \<^verbatim>\<open>&\<close>
  and as \<^verbatim>\<open>{"k":v}\<close>.
\<close>

definition QUOTE :: char where
  "QUOTE = CHR 0x22"

fun example_json_value :: "jsval \<Rightarrow> string" where
  "example_json_value (JStr s) = [QUOTE] @ s @ [QUOTE]"
| "example_json_value (JNum r) = r"
| "example_json_value (JBool b) = (if b then ''true'' else ''false'')"
| "example_json_value v = ''null''"

definition example_lib :: stdlib where
  "example_lib =
     \<lparr>stringify =
        (\<lambda>ob. join ''&''
           (map (\<lambda>kv. fst kv @ ''='' @ (case primitive_String (snd kv) of Some s \<Rightarrow> s | None \<Rightarrow> []))
              ob)),
      JSON_stringify =
        (\<lambda>own inherited. ''{''
           @ join '','' (map (\<lambda>kv. [QUOTE] @ fst kv @ [QUOTE] @ '':'' @ example_json_value (snd kv)) own)
           @ ''}'')\<rparr>"

definition example_event_with :: "RequestBody option \<Rightarrow> QueryString option \<Rightarrow> RequestEvent" where
  "example_event_with b q =
     \<lparr>body = JObj [(''error'', JObj [(''type'', JStr ''index_not_found_exception''),
                                       (''reason'', JStr ''no such index [idx]'')])],
      statusCode = Some 404,
      meta = \<lparr>request = \<lparr>params =
        \<lparr>method = ''GET'', path = ''/idx/_search'', body = b, querystring = q\<rparr>\<rparr>\<rparr>\<rparr>"

definition example_event :: RequestEvent where
  "example_event =
     example_event_with (Some (BodyObject [(''size'', JNum ''0'')] []))
       (Some (QsObject [(''q'', JNum ''1'')]))"

text \<open>A readable stream: \<^verbatim>\<open>readable\<close> and \<^verbatim>\<open>_read\<close> are inherited, not own.\<close>

definition example_stream :: RequestBody where
  "example_stream =
     BodyObject [(''_readableState'', JObj [])]
       [(''readable'', JBool True),
        (''_read'', JFun ''function _read() {}'' (Some JUndefined)),
        (''pipe'', JFun ''function pipe() {}'' (Some JUndefined))]"

definition example_error :: ApiError where
  "example_error = \<lparr>error_class = ResponseError, name = ''ResponseError'', message = ''Response Error''\<rparr>"

definition example_config :: ElasticsearchClientConfig where
  "example_config = \<lparr>logQueries = True\<rparr>"

definition example_imports :: "'c drilldown_imports" where
  "example_imports =
     \<lparr>getFlattenedObject = (\<lambda>ob. ob),
      urlDrilldownValidateUrlTemplate = (\<lambda>u scope. \<lparr>isValid = (template u \<noteq> []), error = None\<rparr>),
      urlDrilldownCompileUrl =
        (\<lambda>t scope. t @ (case get_prop (get_prop scope ''event'') ''value'' of JStr s \<Rightarrow> s | _ \<Rightarrow> [])),
      getPanelVariables = (\<lambda>c. [(''title'', JStr ''Sales''), (''id'', JStr ''panel-1'')]),
      getEventScope = (\<lambda>c. JObj [(''value'', JStr ''abc'')]),
      getEventVariableList = (\<lambda>c. [''event.value'', ''event.key''])\<rparr>"

definition example_deps :: UrlDrilldownDeps where
  "example_deps =
     \<lparr>getGlobalScope = (\<lambda>u. [(''kibanaUrl'', JStr ''http://localhost:5601'')]),
      getSyntaxHelpDocsLink = (\<lambda>u. ''https://docs/syntax''),
      getVariablesHelpDocsLink = (\<lambda>u. ''https://docs/variables'')\<rparr>"

definition example_url_config :: Config where
  "example_url_config = \<lparr>url = \<lparr>template = ''https://example.com/?q=''\<rparr>, openInNewTab = False\<rparr>"

definition example_services :: "(string, string, string, string, string) async_services" where
  "example_services =
     \<lparr>datatable = ''lens_datatable'',
      datatableColumns = ''lens_datatable_columns'',
      getDatatableRenderer = (\<lambda>d. ''renderer('' @ DatatableRendererDeps.formatFactory d @ '','' @ getType d @ '')''),
      datatableVisualization = ''lnsDatatable''\<rparr>"

definition example_core :: "(string, string) CoreSetup" where
  "example_core =
     \<lparr>getStartServices = (\<lambda>u. (''coreStart'', \<lparr>data = \<lparr>search_aggs_types_get = ''aggs.types.get''\<rparr>\<rparr>))\<rparr>"

definition example_plugins :: "(string, string, string, string) DatatableVisualizationPluginSetupPlugins" where
  "example_plugins =
     \<lparr>expressions = \<lparr>registeredFunctions = [], registeredRenderers = []\<rparr>,
      formatFactory = ''formatFactory'',
      editorFrame = \<lparr>visualizations = []\<rparr>\<rparr>"

section \<open>Properties of the logging helper\<close>

lemma truthy_iff:
  "truthy v \<longleftrightarrow> v \<notin> {JUndefined, JNull, JBool False, JNum ''0'', JNum ''NaN'', JStr []}"
  by (cases v) auto

lemma is_stream_iff:
  "is_stream own inherited \<longleftrightarrow>
     (\<exists>v src r. map_of (own @ inherited) ''readable'' = Some v
        \<and> v \<notin> {JUndefined, JNull, JBool False, JNum ''0'', JNum ''NaN'', JStr []}
        \<and> map_of (own @ inherited) ''_read'' = Some (JFun src r))"
proof -
  have key: "''readable'' \<in> set (map fst (own @ inherited))
               \<longleftrightarrow> map_of (own @ inherited) ''readable'' \<noteq> None"
    by (simp add: map_of_eq_None_iff)
  show ?thesis
    unfolding is_stream_def key obj_get_def truthy_iff [symmetric]
    by (auto split: option.splits jsval.splits)
qed

lemma string_of_int_examples: "string_of_int 200 = ''200'' \<and> string_of_int 404 = ''404''"
  by (simp add: string_of_int_def string_of_nat.simps digit_char_def)

text \<open>
  C1. \<^verbatim>\<open>getResponseMessage\<close> formats a string and does nothing else: the result is the
  status code, a newline, the method, a space and the path; \<^verbatim>\<open>?\<close> and the converted
  querystring follow exactly when the converted querystring is not empty (an undefined
  querystring converts to the empty string, a string is taken as it is, an object is
  stringified); a newline and the body as a string follow exactly when the body is truthy.
  The body as a string is a string body itself, \<^verbatim>\<open>[buffer]\<close> for a buffer, \<^verbatim>\<open>[stream]\<close> for
  an object whose \<^verbatim>\<open>readable\<close>, own or inherited, is truthy and whose \<^verbatim>\<open>_read\<close> is a
  function, and \<^verbatim>\<open>JSON.stringify\<close> of any other object. The status code is printed in
  decimal, \<^verbatim>\<open>null\<close> as \<^verbatim>\<open>null\<close>. The function is a value of type
  \<open>stdlib \<Rightarrow> RequestEvent \<Rightarrow> string\<close>: it has no state to change and no call to record.
\<close>

theorem getResponseMessage_format:
  "getResponseMessage lib event =
     (let p = params (request (meta event))
      in (case statusCode event of None \<Rightarrow> ''null'' | Some n \<Rightarrow> string_of_int n)
         @ [NL] @ method p @ '' '' @ path p
         @ (case querystring p of
              None \<Rightarrow> []
            | Some (QsString s) \<Rightarrow> (if s = [] then [] else ''?'' @ s)
            | Some (QsObject ob) \<Rightarrow> (if stringify lib ob = [] then [] else ''?'' @ stringify lib ob))
         @ (case TransportRequestParams.body p of
              None \<Rightarrow> []
            | Some (BodyString s) \<Rightarrow> (if s = [] then [] else [NL] @ s)
            | Some (BodyBuffer bs) \<Rightarrow> [NL] @ ''[buffer]''
            | Some (BodyObject own inherited) \<Rightarrow>
                [NL] @
                (if \<exists>v src r. map_of (own @ inherited) ''readable'' = Some v
                      \<and> v \<notin> {JUndefined, JNull, JBool False, JNum ''0'', JNum ''NaN'', JStr []}
                      \<and> map_of (own @ inherited) ''_read'' = Some (JFun src r)
                 then ''[stream]''
                 else JSON_stringify lib own inherited)))
   \<and> string_of_int 200 = ''200'' \<and> string_of_int 404 = ''404''"
proof -
  have "getResponseMessage lib event =
     (let p = params (request (meta event))
      in (case statusCode event of None \<Rightarrow> ''null'' | Some n \<Rightarrow> string_of_int n)
         @ [NL] @ method p @ '' '' @ path p
         @ (case querystring p of
              None \<Rightarrow> []
            | Some (QsString s) \<Rightarrow> (if s = [] then [] else ''?'' @ s)
            | Some (QsObject ob) \<Rightarrow> (if stringify lib ob = [] then [] else ''?'' @ stringify lib ob))
         @ (case TransportRequestParams.body p of
              None \<Rightarrow> []
            | Some (BodyString s) \<Rightarrow> (if s = [] then [] else [NL] @ s)
            | Some (BodyBuffer bs) \<Rightarrow> [NL] @ ''[buffer]''
            | Some (BodyObject own inherited) \<Rightarrow>
                [NL] @
                (if \<exists>v src r. map_of (own @ inherited) ''readable'' = Some v
                      \<and> v \<notin> {JUndefined, JNull, JBool False, JNum ''0'', JNum ''NaN'', JStr []}
                      \<and> map_of (own @ inherited) ''_read'' = Some (JFun src r)
                 then ''[stream]''
                 else JSON_stringify lib own inherited)))"
    unfolding getResponseMessage_def Let_def convertQueryString_def status_String_def
    by (simp only: is_stream_iff [symmetric])
       (simp split: option.splits QueryString.splits RequestBody.splits)
  then show ?thesis
    using string_of_int_examples by blast
qed

theorem getResponseMessage_format_witness:
  "getResponseMessage example_lib example_event =
     ''404'' @ [NL] @ ''GET /idx/_search?q=1'' @ [NL] @ ''{'' @ [QUOTE] @ ''size'' @ [QUOTE] @ '':0}''
   \<and> getResponseMessage example_lib (example_event_with (Some example_stream) None) =
     ''404'' @ [NL] @ ''GET /idx/_search'' @ [NL] @ ''[stream]''
   \<and> getResponseMessage example_lib
        (example_event_with (Some (BodyObject [(''readable'', JBool False)] [])) None) =
     ''404'' @ [NL] @ ''GET /idx/_search'' @ [NL]
       @ ''{'' @ [QUOTE] @ ''readable'' @ [QUOTE] @ '':false}''
   \<and> getResponseMessage example_lib
        (example_event_with (Some (BodyBuffer [1, 2, 3])) (Some (QsString ''pretty''))) =
     ''404'' @ [NL] @ ''GET /idx/_search?pretty'' @ [NL] @ ''[buffer]''
   \<and> getResponseMessage example_lib
        (example_event_with (Some (BodyString ''{}'')) (Some (QsObject []))) =
     ''404'' @ [NL] @ ''GET /idx/_search'' @ [NL] @ ''{}''
   \<and> getResponseMessage example_lib
        (example_event_with (Some (BodyString [])) (Some (QsString []))) =
     ''404'' @ [NL] @ ''GET /idx/_search''"
  using
    getResponseMessage_format [of example_lib example_event, THEN conjunct1]
    getResponseMessage_format
      [of example_lib "example_event_with (Some example_stream) None", THEN conjunct1]
    getResponseMessage_format
      [of example_lib "example_event_with (Some (BodyObject [(''readable'', JBool False)] [])) None",
       THEN conjunct1]
    getResponseMessage_format
      [of example_lib "example_event_with (Some (BodyBuffer [1, 2, 3])) (Some (QsString ''pretty''))",
       THEN conjunct1]
    getResponseMessage_format
      [of example_lib "example_event_with (Some (BodyString ''{}'')) (Some (QsObject []))",
       THEN conjunct1]
    getResponseMessage_format
      [of example_lib "example_event_with (Some (BodyString [])) (Some (QsString []))",
       THEN conjunct1]
  by (simp add: example_lib_def example_event_def example_event_with_def example_stream_def
        Let_def string_of_int_def string_of_nat.simps digit_char_def)

lemma js_String_object_cases:
  "(map_of kvs ''toString'' = None \<longrightarrow> js_String (JObj kvs) = Inr ''[object Object]'')
   \<and> (map_of kvs ''toString'' = Some (JFun src None) \<longrightarrow> js_String (JObj kvs) = Inl Thrown)
   \<and> (map_of kvs ''toString'' = Some (JFun src (Some p)) \<and> primitive_String p = Some s \<longrightarrow>
        js_String (JObj kvs) = Inr s)
   \<and> (map_of kvs ''toString'' = Some m \<and> (\<forall>f r. m \<noteq> JFun f r) \<and> map_of kvs ''valueOf'' = None \<longrightarrow>
        js_String (JObj kvs) = Inl TypeError)
   \<and> (map_of kvs ''toString'' = Some m \<and> (\<forall>f r. m \<noteq> JFun f r)
        \<and> map_of kvs ''valueOf'' = Some (JFun src (Some p)) \<and> primitive_String p = Some s \<longrightarrow>
        js_String (JObj kvs) = Inr s)"
  by (cases m) (auto simp add: object_String_def)

lemma opt_chain_cases:
  "opt_chain v k = (case v of JObj kvs \<Rightarrow> (case map_of kvs k of Some x \<Rightarrow> x | None \<Rightarrow> JUndefined)
                     | _ \<Rightarrow> JUndefined)"
  by (cases v) (simp_all add: opt_chain_def nullish_def obj_get_def)



section \<open>Properties of the logging interceptor\<close>

lemma Client_emit_configureClient:
  "Client_emit (configureClient parse lib config scoped) eventName err event log =
     (if eventName = ''response'' \<and> event \<noteq> None \<and> logQueries config then
        (if err \<noteq> None then
           (case getErrorMessage lib (the err) (the event) of
              Inl x \<Rightarrow> Inl x
            | Inr msg \<Rightarrow> Inr (log @ [Logger_error msg]))
         else Inr (log @ [Logger_debug (getResponseMessage lib (the event)) [''query'']]))
      else Inr log)"
  by (simp add: Client_emit_def configureClient_def addLogging_def Client_on_def new_Client_def Let_def
        split: sum.splits)



section \<open>Properties of the URL drilldown\<close>

lemma map_of_set_prop: "map_of (set_prop ob k v) = (map_of ob)(k \<mapsto> v)"
  by (induction ob) auto

lemma obj_get_set_prop: "obj_get (set_prop ob k v) k' = (if k' = k then v else obj_get ob k')"
  by (simp add: obj_get_def map_of_set_prop)

text \<open>
  C5. \<^verbatim>\<open>execute\<close> compiles \<^verbatim>\<open>config.url.template\<close> against the runtime variables of the
  context and navigates to the result: with \<^verbatim>\<open>openInNewTab\<close> it calls
  \<^verbatim>\<open>window.open(url, '_blank', 'noopener')\<close>, otherwise \<^verbatim>\<open>navigateToUrl(url)\<close>, and nothing
  else. The runtime variables are the global scope with \<^verbatim>\<open>context\<close> set to the panel
  variables under \<^verbatim>\<open>panel\<close> and \<^verbatim>\<open>event\<close> set to the event scope.
\<close>

theorem execute_navigates:
  "(openInNewTab config \<longrightarrow>
      execute imp deps config context =
        [Window_open
           (urlDrilldownCompileUrl imp (template (url config)) (getRuntimeVariables imp deps context))
           ''_blank'' ''noopener''])
   \<and> (\<not> openInNewTab config \<longrightarrow>
      execute imp deps config context =
        [NavigateToUrl
           (urlDrilldownCompileUrl imp (template (url config)) (getRuntimeVariables imp deps context))])
   \<and> get_prop (getRuntimeVariables imp deps context) ''context'' =
       JObj [(''panel'', JObj (getPanelVariables imp context))]
   \<and> get_prop (getRuntimeVariables imp deps context) ''event'' = getEventScope imp context
   \<and> (k \<noteq> ''context'' \<and> k \<noteq> ''event'' \<longrightarrow>
       get_prop (getRuntimeVariables imp deps context) k = obj_get (getGlobalScope deps ()) k)"
  by (simp add: execute_def getRuntimeVariables_def obj_get_set_prop Let_def)

theorem execute_navigates_witness:
  "openInNewTab (example_url_config\<lparr>openInNewTab := True\<rparr>)
   \<and> execute example_imports example_deps (example_url_config\<lparr>openInNewTab := True\<rparr>) () =
       [Window_open ''https://example.com/?q=abc'' ''_blank'' ''noopener'']
   \<and> \<not> openInNewTab example_url_config
   \<and> execute example_imports example_deps example_url_config () =
       [NavigateToUrl ''https://example.com/?q=abc'']
   \<and> ''kibanaUrl'' \<noteq> ''context'' \<and> ''kibanaUrl'' \<noteq> ''event''
   \<and> get_prop (getRuntimeVariables example_imports example_deps ()) ''kibanaUrl'' =
       JStr ''http://localhost:5601''"
  using execute_navigates
      [of "example_url_config\<lparr>openInNewTab := True\<rparr>" example_imports example_deps "()"
          "''kibanaUrl''"]
    execute_navigates [of example_url_config example_imports example_deps "()" "''kibanaUrl''"]
  by (simp add: example_url_config_def example_imports_def example_deps_def obj_get_def)

text \<open>
  C8. When \<^verbatim>\<open>openInNewTab\<close> is false, the URL that \<^verbatim>\<open>execute\<close> passes to
  \<^verbatim>\<open>navigateToUrl\<close> is the URL that \<^verbatim>\<open>getHref\<close> returns for the same configuration and
  context: the template compiled against the runtime variables.
\<close>

theorem getHref_agrees_with_execute:
  "\<not> openInNewTab config \<Longrightarrow>
     execute imp deps config context = [NavigateToUrl (getHref imp deps config context)]
     \<and> getHref imp deps config context =
         urlDrilldownCompileUrl imp (template (url config)) (getRuntimeVariables imp deps context)"
  by (simp add: execute_def getHref_def Let_def)

theorem getHref_agrees_with_execute_witness:
  "\<not> openInNewTab example_url_config
   \<and> execute example_imports example_deps example_url_config () =
       [NavigateToUrl (getHref example_imports example_deps example_url_config ())]
   \<and> getHref example_imports example_deps example_url_config () =
       ''https://example.com/?q=abc''"
proof -
  have h: "\<not> openInNewTab example_url_config"
    by (simp add: example_url_config_def)
  from getHref_agrees_with_execute [OF h, of example_imports example_deps "()"] h
  show ?thesis
    by (simp add: example_url_config_def example_imports_def example_deps_def
          getRuntimeVariables_def obj_get_def)
qed

text \<open>
  C9. \<^verbatim>\<open>isConfigValid\<close> holds exactly when the template is not the empty string; the
  configuration that \<^verbatim>\<open>createConfig\<close> returns has the empty template and is not valid.
\<close>

theorem isConfigValid_iff:
  "(isConfigValid config \<longleftrightarrow> template (url config) \<noteq> [])
   \<and> template (url (createConfig u)) = []
   \<and> \<not> isConfigValid (createConfig u)"
  by (simp add: isConfigValid_def createConfig_def)

theorem isConfigValid_iff_witness:
  "isConfigValid example_url_config \<and> \<not> isConfigValid (createConfig ())"
  using isConfigValid_iff [of example_url_config "()"]
  by (simp add: example_url_config_def)

text \<open>What \<^verbatim>\<open>createConfig\<close> returns, on every call.\<close>

lemma createConfig_returns:
  "createConfig u = \<lparr>url = \<lparr>template = []\<rparr>, openInNewTab = False\<rparr>"
  by (simp add: createConfig_def)

text \<open>
  C10. \<^verbatim>\<open>getVariableList\<close> returns three segments one after the other: the event
  variables, the flattened panel keys prefixed with \<^verbatim>\<open>context.panel.\<close>, the flattened keys
  of the global scope. Each segment is sorted ascending and holds the elements it was
  given; the whole list need not be sorted.
\<close>

theorem getVariableList_segments:
  "getVariableList imp deps context =
     Array_sort (getEventVariableList imp context)
     @ Array_sort (map (\<lambda>key. ''context.panel.'' @ key)
          (Object_keys (getFlattenedObject imp (getPanelVariables imp context))))
     @ Array_sort (Object_keys (getFlattenedObject imp (getGlobalScope deps ())))
   \<and> sorted (Array_sort xs) \<and> mset (Array_sort xs) = mset xs
   \<and> (\<exists>(imp' :: 'c drilldown_imports) deps' context'. \<not> sorted (getVariableList imp' deps' context'))"
proof -
  have "\<not> sorted (getVariableList (example_imports :: 'c drilldown_imports) example_deps undefined)"
    by (simp add: getVariableList_def example_imports_def example_deps_def Object_keys_def
          Array_sort_def Let_def)
  then have "\<exists>(imp' :: 'c drilldown_imports) deps' context'. \<not> sorted (getVariableList imp' deps' context')"
    by blast
  then show ?thesis
    by (simp add: getVariableList_def Array_sort_def Let_def)
qed

theorem getVariableList_segments_witness:
  "getVariableList example_imports example_deps () =
     [''event.key'', ''event.value''] @ [''context.panel.id'', ''context.panel.title''] @ [''kibanaUrl'']
   \<and> \<not> sorted (getVariableList example_imports example_deps ())"
proof -
  from getVariableList_segments [of example_imports example_deps "()" "[]", THEN conjunct1]
  have eq: "getVariableList example_imports example_deps () =
     [''event.key'', ''event.value'', ''context.panel.id'', ''context.panel.title'', ''kibanaUrl'']"
    by (simp add: example_imports_def example_deps_def Object_keys_def Array_sort_def)
  show ?thesis
    unfolding eq by simp
qed

section \<open>Properties of the datatable visualization's registration\<close>

text \<open>
  C7. \<^verbatim>\<open>setup\<close> calls \<^verbatim>\<open>editorFrame.registerVisualization\<close> once, with the async factory,
  and registers nothing with the expressions plugin. The factory, when it is invoked,
  registers \<^verbatim>\<open>datatableColumns\<close>, then \<^verbatim>\<open>datatable\<close>, then the datatable renderer, and
  resolves to \<^verbatim>\<open>datatableVisualization\<close> of the imported module.
\<close>

theorem setup_registers_lazily:
  "visualizations (editorFrame (DatatableVisualization_setup services core plugins)) =
     visualizations (editorFrame plugins) @ [datatable_factory services core (formatFactory plugins)]
   \<and> expressions (DatatableVisualization_setup services core plugins) = expressions plugins
   \<and> formatFactory (DatatableVisualization_setup services core plugins) = formatFactory plugins
   \<and> fst (datatable_factory services core ff e) = datatableVisualization services
   \<and> registeredFunctions (snd (datatable_factory services core ff e)) =
       registeredFunctions e @ [\<lambda>u. datatableColumns services, \<lambda>u. datatable services]
   \<and> registeredRenderers (snd (datatable_factory services core ff e)) =
       registeredRenderers e
       @ [\<lambda>u. getDatatableRenderer services
                 \<lparr>DatatableRendererDeps.formatFactory = ff,
                  getType = search_aggs_types_get (data (snd (getStartServices core ())))\<rparr>]"
  by (simp add: DatatableVisualization_setup_def registerVisualization_def datatable_factory_def
        registerFunction_def registerRenderer_def Let_def)

theorem setup_registers_lazily_witness:
  "length (visualizations (editorFrame (DatatableVisualization_setup example_services example_core example_plugins))) = 1
   \<and> registeredFunctions (expressions (DatatableVisualization_setup example_services example_core example_plugins)) = []
   \<and> registeredRenderers (expressions (DatatableVisualization_setup example_services example_core example_plugins)) = []
   \<and> fst (hd (visualizations (editorFrame
            (DatatableVisualization_setup example_services example_core example_plugins)))
          (expressions example_plugins)) = ''lnsDatatable''
   \<and> map (\<lambda>f. f ()) (registeredFunctions (snd (hd (visualizations (editorFrame
            (DatatableVisualization_setup example_services example_core example_plugins)))
          (expressions example_plugins)))) = [''lens_datatable_columns'', ''lens_datatable'']
   \<and> map (\<lambda>r. r ()) (registeredRenderers (snd (hd (visualizations (editorFrame
            (DatatableVisualization_setup example_services example_core example_plugins)))
          (expressions example_plugins)))) = [''renderer(formatFactory,aggs.types.get)'']"
  using setup_registers_lazily
      [of example_services example_core example_plugins "formatFactory example_plugins"
          "expressions example_plugins"]
  by (simp add: example_services_def example_core_def example_plugins_def)

end
